theory Spec2Isabelle
  imports Complex_Main "HOL-Library.AList"
begin

section \<open>Values, errors and the shared store\<close>

text \<open>
  Python values that reach the store. Redis holds every hash field as text and
  \<open>get_job\<close> parses the numeric fields back; the model keeps a stored numeral as the
  number it denotes (\<open>PInt\<close>, \<open>PFloat\<close>) and uses \<open>PStr\<close> for text that is not
  a numeral. Floats are carried as the rationals they denote. \<open>PNone\<close> is Python's
  \<open>None\<close>: it is what \<open>dict.get\<close> returns for a missing key, and the client refuses
  to write it.
\<close>

datatype pyval = PNone | PStr string | PInt int | PFloat rat

datatype py_error = ValueError | TypeError | DataError | AttributeError

type_synonym pydict = "(string \<times> pyval) list"

type_synonym hash = "string \<rightharpoonup> pyval"

text \<open>
  The keys the program uses: the job hashes \<open>job:<id>\<close>, the recency list
  \<open>jobs:all\<close>, the counter \<open>download:semaphore:count\<close>, the set
  \<open>download:semaphore:active\<close> and the list \<open>download:queue\<close>. No job key equals one
  of the four fixed keys (its fourth character is a colon), so each gets its own field.
  \<open>ttl\<close> records the expiry last set on a key, in seconds.
\<close>

record store =
  hashes :: "string \<rightharpoonup> hash"
  ttl :: "string \<rightharpoonup> int"
  jobs_all :: "string list"
  sem_count :: "int option"
  sem_active :: "string set"
  queue :: "string list"

definition JOB_PREFIX :: string where
  "JOB_PREFIX = ''job:''"

definition JOB_EXPIRY_SECONDS :: int where
  "JOB_EXPIRY_SECONDS = 86400"

definition job_key :: "string \<Rightarrow> string" where
  "job_key job_id = JOB_PREFIX @ job_id"

subsection \<open>Python helpers\<close>

definition dict_get :: "hash \<Rightarrow> string \<Rightarrow> pyval \<Rightarrow> pyval" where
  "dict_get d k dflt = (case d k of None \<Rightarrow> dflt | Some v \<Rightarrow> v)"

text \<open>
  The truth of a value in \<open>if v:\<close>. The code tests only text fields this way
  (\<open>error\<close>, \<open>file_name\<close>, \<open>file_path\<close>), and a text field comes back from the
  store as a string, which is true unless it is empty. A numeral kept in such a field
  stands for its text, which is not empty, so it is true, the numeral 0 too.
\<close>

fun truthy :: "pyval \<Rightarrow> bool" where
  "truthy PNone = False"
| "truthy (PStr s) = (s \<noteq> [])"
| "truthy (PInt n) = True"
| "truthy (PFloat r) = True"

text \<open>
  \<open>int(v)\<close> and \<open>float(v)\<close> on a value read from a hash. A field whose text is
  not an integer numeral (\<open>PStr\<close>, or the text of a float) makes \<open>int\<close> raise
  \<open>ValueError\<close>.
\<close>

fun py_int :: "pyval \<Rightarrow> py_error + int" where
  "py_int (PInt n) = Inr n"
| "py_int PNone = Inl TypeError"
| "py_int (PStr s) = Inl ValueError"
| "py_int (PFloat r) = Inl ValueError"

fun py_float :: "pyval \<Rightarrow> py_error + rat" where
  "py_float (PInt n) = Inr (of_int n)"
| "py_float (PFloat r) = Inr r"
| "py_float PNone = Inl TypeError"
| "py_float (PStr s) = Inl ValueError"

subsection \<open>Redis commands\<close>

text \<open>
  \<open>HSET key mapping\<close>: the client raises \<open>DataError\<close> for an empty mapping or a
  \<open>None\<close> value and sends nothing; otherwise the named fields are written over the
  hash, which is created when the key is new.
\<close>

definition hset :: "store \<Rightarrow> string \<Rightarrow> pydict \<Rightarrow> py_error + store" where
  "hset s key mapping =
     (if mapping = [] \<or> PNone \<in> snd ` set mapping then Inl DataError
      else Inr (s\<lparr>hashes := (hashes s)(key \<mapsto>
             (case hashes s key of None \<Rightarrow> Map.empty | Some h \<Rightarrow> h) ++ map_of mapping)\<rparr>))"

definition exists_key :: "store \<Rightarrow> string \<Rightarrow> bool" where
  "exists_key s key = (hashes s key \<noteq> None)"

text \<open>\<open>EXPIRE\<close> sets the time to live of a key that exists and does nothing otherwise.\<close>

definition expire :: "store \<Rightarrow> string \<Rightarrow> int \<Rightarrow> store" where
  "expire s key secs = (if exists_key s key then s\<lparr>ttl := (ttl s)(key \<mapsto> secs)\<rparr> else s)"

text \<open>\<open>DEL\<close> of a job key: the number of keys removed, and the key's expiry goes with it.\<close>

definition delete_key :: "store \<Rightarrow> string \<Rightarrow> store \<times> int" where
  "delete_key s key =
     (if exists_key s key
      then (s\<lparr>hashes := (hashes s)(key := None), ttl := (ttl s)(key := None)\<rparr>, 1)
      else (s, 0))"

section \<open>The job record store (app/services/jobs.py)\<close>

definition defaults :: "int \<Rightarrow> pydict" where
  "defaults now =
     [(''created_at'', PInt now), (''updated_at'', PInt now), (''status'', PStr ''queued''),
      (''progress'', PFloat 0), (''file_name'', PStr ''''), (''file_path'', PStr ''''),
      (''error'', PStr ''''), (''retry_count'', PInt 0), (''parent_job_id'', PStr ''''),
      (''child_job_id'', PStr '''')]"

text \<open>
  \<open>create_job\<close>: \<open>job_data\<close> must name a \<open>job_id\<close> (else \<open>ValueError\<close>); the
  defaults are merged under the caller's fields, the hash is written, the id is pushed on
  the head of \<open>jobs:all\<close> and the expiry is set. \<open>now\<close> is \<open>int(time.time())\<close>,
  read twice for the two stamps and taken to fall in the same second. The id is returned
  as the caller gave it. Job ids are strings (the callers pass \<open>str(uuid.uuid4())\<close>);
  the model has no text for another value to put in the key and answers \<open>TypeError\<close>
  there.
\<close>

definition create_job :: "store \<Rightarrow> pydict \<Rightarrow> int \<Rightarrow> py_error + (store \<times> pyval)" where
  "create_job s job_data now =
     (case map_of job_data ''job_id'' of
        None \<Rightarrow> Inl ValueError
      | Some job_id \<Rightarrow>
          (case job_id of
             PStr jid \<Rightarrow>
               (case hset s (job_key jid) (AList.merge (defaults now) job_data) of
                  Inl e \<Rightarrow> Inl e
                | Inr s1 \<Rightarrow>
                    Inr (expire (s1\<lparr>jobs_all := jid # jobs_all s1\<rparr>) (job_key jid)
                           JOB_EXPIRY_SECONDS, job_id))
           | _ \<Rightarrow> Inl TypeError))"

text \<open>
  \<open>get_job\<close>: \<open>HGETALL\<close>, \<open>None\<close> for an empty answer, and the four numeric
  fields parsed where they parse (a field that does not parse is kept as it is). Redis
  holds no empty hash, so the answer is empty exactly when the key is absent.
\<close>

definition parse_field :: "string \<Rightarrow> pyval \<Rightarrow> pyval" where
  "parse_field field v =
     (if field = ''progress''
      then (case py_float v of Inr r \<Rightarrow> PFloat r | Inl e \<Rightarrow> v)
      else (case py_int v of Inr n \<Rightarrow> PInt n | Inl e \<Rightarrow> v))"

definition numeric_fields :: "string list" where
  "numeric_fields = [''progress'', ''created_at'', ''updated_at'', ''retry_count'']"

definition parse_numeric :: "hash \<Rightarrow> hash" where
  "parse_numeric job_data =
     fold (\<lambda>field d. case d field of None \<Rightarrow> d | Some v \<Rightarrow> d(field \<mapsto> parse_field field v))
       numeric_fields job_data"

definition get_job :: "store \<Rightarrow> string \<Rightarrow> hash option" where
  "get_job s job_id =
     (case hashes s (job_key job_id) of
        None \<Rightarrow> None
      | Some job_data \<Rightarrow> Some (parse_numeric job_data))"

text \<open>
  \<open>update_job\<close>: \<open>False\<close> when the key does not exist; otherwise the keyword
  arguments plus \<open>updated_at = now\<close> are written over the hash and the expiry is
  refreshed. The keyword arguments are a Python dict, given here as an association list
  with distinct keys.
\<close>

definition update_job :: "store \<Rightarrow> string \<Rightarrow> pydict \<Rightarrow> int \<Rightarrow> store \<times> (py_error + bool)" where
  "update_job s job_id updates now =
     (if \<not> exists_key s (job_key job_id) then (s, Inr False)
      else
        (case hset s (job_key job_id) (AList.update ''updated_at'' (PInt now) updates) of
           Inl e \<Rightarrow> (s, Inl e)
         | Inr s1 \<Rightarrow> (expire s1 (job_key job_id) JOB_EXPIRY_SECONDS, Inr True)))"

text \<open>
  \<open>delete_job\<close>: \<open>DEL\<close> the hash, \<open>LREM jobs:all 0 job_id\<close> (every occurrence),
  and report whether a key was removed.
\<close>

definition delete_job :: "store \<Rightarrow> string \<Rightarrow> store \<times> bool" where
  "delete_job s job_id =
     (let (s1, result) = delete_key s (job_key job_id);
          s2 = s1\<lparr>jobs_all := removeAll job_id (jobs_all s1)\<rparr>
      in (s2, result > 0))"

text \<open>\<open>HGET\<close>: one field of the hash at a key, \<open>None\<close> when the key or the field is absent.\<close>

definition hget :: "store \<Rightarrow> string \<Rightarrow> string \<Rightarrow> pyval option" where
  "hget s key field = (case hashes s key of None \<Rightarrow> None | Some h \<Rightarrow> h field)"

text \<open>A store with one running job \<open>a\<close>, used to run the operations on concrete data.\<close>

definition example_store :: store where
  "example_store =
     \<lparr>hashes = [job_key ''a'' \<mapsto> [''job_id'' \<mapsto> PStr ''a'', ''status'' \<mapsto> PStr ''running'',
                   ''progress'' \<mapsto> PFloat 0, ''updated_at'' \<mapsto> PInt 10]],
      ttl = [job_key ''a'' \<mapsto> 500], jobs_all = [''b'', ''a'', ''b''],
      sem_count = Some 0, sem_active = {}, queue = []\<rparr>"

section \<open>Retries (app/services/retry.py)\<close>

text \<open>
  \<open>Config.MAX_RETRIES\<close> is read from the environment and is a parameter of the model.
  \<open>new_params\<close> is the optional dict of overrides (\<open>None\<close> by default): when it is
  given and not empty, each of the five request fields is taken from it with
  \<open>dict.get\<close>, so a field it does not name becomes \<open>None\<close>; otherwise the field
  is read from the original record.
\<close>

definition pick_param :: "pydict option \<Rightarrow> hash \<Rightarrow> string \<Rightarrow> pyval" where
  "pick_param new_params original_job k =
     (case new_params of
        None \<Rightarrow> dict_get original_job k PNone
      | Some np \<Rightarrow>
          if np \<noteq> [] then (case map_of np k of None \<Rightarrow> PNone | Some v \<Rightarrow> v)
          else dict_get original_job k PNone)"

definition retry_job_data :: "pydict option \<Rightarrow> hash \<Rightarrow> string \<Rightarrow> string \<Rightarrow> int \<Rightarrow> pydict" where
  "retry_job_data new_params original_job original_job_id new_job_id retry_count =
     [(''job_id'', PStr new_job_id),
      (''url'', pick_param new_params original_job ''url''),
      (''platform'', pick_param new_params original_job ''platform''),
      (''type'', pick_param new_params original_job ''type''),
      (''format'', pick_param new_params original_job ''format''),
      (''quality'', pick_param new_params original_job ''quality''),
      (''status'', PStr ''queued''),
      (''progress'', PInt 0),
      (''retry_count'', PInt (retry_count + 1)),
      (''parent_job_id'', PStr original_job_id),
      (''file_name'', PStr []),
      (''file_path'', PStr []),
      (''error'', PStr [])]"

text \<open>
  \<open>RetryManager.create_retry_job\<close>. \<open>new_job_id\<close> is the value of
  \<open>str(uuid.uuid4())\<close>; \<open>now\<close> and \<open>now'\<close> are the clock readings of
  \<open>create_job\<close> and of \<open>update_job\<close>. The result is the new id, \<open>None\<close>, or the
  exception that escapes.
\<close>

definition create_retry_job ::
  "int \<Rightarrow> store \<Rightarrow> string \<Rightarrow> pydict option \<Rightarrow> string \<Rightarrow> int \<Rightarrow> int
     \<Rightarrow> store \<times> (py_error + string option)" where
  "create_retry_job MAX_RETRIES s original_job_id new_params new_job_id now now' =
     (case get_job s original_job_id of
        None \<Rightarrow> (s, Inr None)
      | Some original_job \<Rightarrow>
          (case py_int (dict_get original_job ''retry_count'' (PInt 0)) of
             Inl e \<Rightarrow> (s, Inl e)
           | Inr retry_count \<Rightarrow>
               if retry_count \<ge> MAX_RETRIES then (s, Inr None)
               else
                 (case create_job s
                         (retry_job_data new_params original_job original_job_id new_job_id
                            retry_count) now of
                    Inl e \<Rightarrow> (s, Inl e)
                  | Inr (s1, created) \<Rightarrow>
                      (case update_job s1 original_job_id [(''child_job_id'', PStr new_job_id)] now' of
                         (s2, Inl e) \<Rightarrow> (s2, Inl e)
                       | (s2, Inr updated) \<Rightarrow> (s2, Inr (Some new_job_id))))))"

text \<open>\<open>RetryManager.can_retry\<close>.\<close>

definition can_retry :: "int \<Rightarrow> store \<Rightarrow> string \<Rightarrow> py_error + bool" where
  "can_retry MAX_RETRIES s job_id =
     (case get_job s job_id of
        None \<Rightarrow> Inr False
      | Some job \<Rightarrow>
          if dict_get job ''status'' PNone \<notin> {PStr ''error'', PStr ''cancelled''} then Inr False
          else
            (case py_int (dict_get job ''retry_count'' (PInt 0)) of
               Inl e \<Rightarrow> Inl e
             | Inr retry_count \<Rightarrow> if retry_count \<ge> MAX_RETRIES then Inr False else Inr True))"

text \<open>The five request parameters a retry copies from the original record.\<close>

definition request_fields :: "string list" where
  "request_fields = [''url'', ''platform'', ''type'', ''format'', ''quality'']"

text \<open>
  Two records to run the retry manager on: a failed job that has used two of its
  retries, and a finished job that has used none.
\<close>

definition failed_job :: hash where
  "failed_job =
     [''job_id'' \<mapsto> PStr ''orig'', ''url'' \<mapsto> PStr ''https://example.org/v'',
      ''platform'' \<mapsto> PStr ''youtube'', ''type'' \<mapsto> PStr ''video'', ''format'' \<mapsto> PStr ''mp4'',
      ''quality'' \<mapsto> PStr ''720'', ''status'' \<mapsto> PStr ''error'', ''progress'' \<mapsto> PFloat 0,
      ''error'' \<mapsto> PStr ''Download failed'', ''retry_count'' \<mapsto> PInt 2,
      ''created_at'' \<mapsto> PInt 10, ''updated_at'' \<mapsto> PInt 12]"

definition failed_store :: store where
  "failed_store =
     \<lparr>hashes = [job_key ''orig'' \<mapsto> failed_job],
      ttl = [job_key ''orig'' \<mapsto> 86400], jobs_all = [''orig''],
      sem_count = Some 0, sem_active = {}, queue = []\<rparr>"




text \<open>
  The store with nothing in it, on which \<open>create_job\<close> is run to make a failed record
  that names no request field.
\<close>

definition empty_store :: store where
  "empty_store =
     \<lparr>hashes = Map.empty, ttl = Map.empty, jobs_all = [],
      sem_count = None, sem_active = {}, queue = []\<rparr>"

definition bare_failed_data :: pydict where
  "bare_failed_data = [(''job_id'', PStr ''bare''), (''status'', PStr ''error''), (''retry_count'', PInt 2)]"

section \<open>Admission control (app/services/concurrency.py)\<close>

text \<open>
  The counter is a Redis string holding an integer; \<open>INCR\<close> and \<open>DECR\<close> take a
  missing key as 0, create it, and return the new value.
\<close>

definition stored_count :: "store \<Rightarrow> int" where
  "stored_count s = (case sem_count s of None \<Rightarrow> 0 | Some c \<Rightarrow> c)"

definition incr :: "store \<Rightarrow> store \<times> int" where
  "incr s = (s\<lparr>sem_count := Some (stored_count s + 1)\<rparr>, stored_count s + 1)"

definition decr :: "store \<Rightarrow> store \<times> int" where
  "decr s = (s\<lparr>sem_count := Some (stored_count s - 1)\<rparr>, stored_count s - 1)"

definition set_count :: "store \<Rightarrow> int \<Rightarrow> store" where
  "set_count s v = s\<lparr>sem_count := Some v\<rparr>"

text \<open>\<open>SADD\<close> and \<open>SREM\<close> on the active set, \<open>LREM key 0 value\<close> and \<open>RPUSH\<close> on the queue.\<close>

definition sadd :: "store \<Rightarrow> string \<Rightarrow> store" where
  "sadd s job_id = s\<lparr>sem_active := insert job_id (sem_active s)\<rparr>"

definition srem :: "store \<Rightarrow> string \<Rightarrow> store" where
  "srem s job_id = s\<lparr>sem_active := sem_active s - {job_id}\<rparr>"

definition lrem_queue :: "store \<Rightarrow> string \<Rightarrow> store" where
  "lrem_queue s job_id = s\<lparr>queue := removeAll job_id (queue s)\<rparr>"

definition rpush :: "store \<Rightarrow> string \<Rightarrow> store" where
  "rpush s job_id = s\<lparr>queue := queue s @ [job_id]\<rparr>"

text \<open>
  \<open>redis.lfrompop(QUEUE_KEY, count=1, numtoremove=0)\<close>: the client object (redis-py's
  \<open>Redis\<close>, or \<open>FakeRedis\<close>, which derives from it) has no attribute of that name and
  Redis has no such command, so the attribute lookup raises \<open>AttributeError\<close> and
  nothing is sent to the store. Had the call returned, its truth value would decide
  whether the job is pushed on the queue.
\<close>

definition lfrompop :: "store \<Rightarrow> py_error + bool" where
  "lfrompop s = Inl AttributeError"

text \<open>
  \<open>DownloadSemaphore.acquire\<close>. \<open>MAX_CONCURRENT_DOWNLOADS\<close> is read from the
  environment and is a parameter. The loop is \<open>while True\<close>, so it is a partial
  function: \<open>None\<close> stands for a call that never returns. \<open>clock i\<close> is the
  \<open>i\<close>-th reading of \<open>time.time()\<close> in the call (\<open>clock 0\<close> is \<open>start_time\<close>);
  \<open>time.sleep(1)\<close> does nothing to the store. No other process acts during the call.
\<close>

partial_function (option) acquire_loop ::
  "int \<Rightarrow> (nat \<Rightarrow> rat) \<Rightarrow> string \<Rightarrow> int \<Rightarrow> rat \<Rightarrow> nat \<Rightarrow> store \<Rightarrow> (store \<times> (py_error + bool)) option"
where
  "acquire_loop MAX_CONCURRENT_DOWNLOADS clock job_id timeout_seconds start_time i s =
     (let (s1, count) = incr s in
      if count \<le> MAX_CONCURRENT_DOWNLOADS
      then Some (lrem_queue (sadd s1 job_id) job_id, Inr True)
      else
        (let (s2, count') = decr s1 in
         case lfrompop s2 of
           Inl e \<Rightarrow> Some (s2, Inl e)
         | Inr queued \<Rightarrow>
             (let s3 = (if \<not> queued then rpush s2 job_id else s2) in
              if clock i - start_time > of_int timeout_seconds then Some (s3, Inr False)
              else acquire_loop MAX_CONCURRENT_DOWNLOADS clock job_id timeout_seconds start_time
                     (Suc i) s3)))"

definition acquire ::
  "int \<Rightarrow> (nat \<Rightarrow> rat) \<Rightarrow> store \<Rightarrow> string \<Rightarrow> int \<Rightarrow> (store \<times> (py_error + bool)) option" where
  "acquire MAX_CONCURRENT_DOWNLOADS clock s job_id timeout_seconds =
     acquire_loop MAX_CONCURRENT_DOWNLOADS clock job_id timeout_seconds (clock 0) 1 s"

text \<open>\<open>DownloadSemaphore.release\<close> and \<open>DownloadSemaphore.reset\<close>.\<close>

definition release :: "store \<Rightarrow> string \<Rightarrow> store" where
  "release s job_id =
     (let s1 = srem s job_id;
          (s2, count) = decr s1
      in if count < 0 then set_count s2 0 else s2)"

definition reset :: "store \<Rightarrow> store" where
  "reset s = s\<lparr>sem_count := Some 0, sem_active := {}, queue := []\<rparr>"

text \<open>
  A sequence of calls made one after the other, each finished before the next starts.
  What a call returns or raises is the caller's business; the ledger it leaves is what the
  next call finds.
\<close>

datatype call = Acquire string int | Release string

fun run :: "int \<Rightarrow> (nat \<Rightarrow> rat) \<Rightarrow> store \<Rightarrow> call list \<Rightarrow> store option" where
  "run N clock s [] = Some s"
| "run N clock s (Acquire job_id timeout_seconds # calls) =
     (case acquire N clock s job_id timeout_seconds of
        None \<Rightarrow> None
      | Some (s', outcome) \<Rightarrow> run N clock s' calls)"
| "run N clock s (Release job_id # calls) = run N clock (release s job_id) calls"

text \<open>
  A disciplined sequence: every \<open>acquire\<close> is for a job that holds no slot at that
  moment and every \<open>release\<close> is for a job that holds one.
\<close>

fun disciplined :: "int \<Rightarrow> (nat \<Rightarrow> rat) \<Rightarrow> store \<Rightarrow> call list \<Rightarrow> bool" where
  "disciplined N clock s [] = True"
| "disciplined N clock s (Acquire job_id timeout_seconds # calls) =
     (job_id \<notin> sem_active s \<and>
      (case acquire N clock s job_id timeout_seconds of
         None \<Rightarrow> False
       | Some (s', outcome) \<Rightarrow> disciplined N clock s' calls))"
| "disciplined N clock s (Release job_id # calls) =
     (job_id \<in> sem_active s \<and> disciplined N clock (release s job_id) calls)"

text \<open>The two halves of the admission invariant, read off the ledger.\<close>

definition within_limit :: "int \<Rightarrow> store \<Rightarrow> bool" where
  "within_limit N s = (case sem_count s of None \<Rightarrow> False | Some c \<Rightarrow> 0 \<le> c \<and> c \<le> N)"

definition count_matches :: "store \<Rightarrow> bool" where
  "count_matches s = (finite (sem_active s) \<and> sem_count s = Some (int (card (sem_active s))))"

text \<open>A clock that advances one second per reading, and the ledger with both slots held.\<close>

definition ticking_clock :: "nat \<Rightarrow> rat" where
  "ticking_clock i = of_nat i"

definition two_held :: store where
  "two_held = (reset example_store)\<lparr>sem_count := Some 2, sem_active := {''A'', ''B''}\<rparr>"

section \<open>The progress stream (main.py)\<close>

text \<open>
  An event of the stream: \<open>data:<percent>[|<file_name>]\<close> or \<open>data:ERROR:<message>\<close>.
  The progress event carries the number the code then renders with
  \<open>str(round(current_progress, 1))\<close>.
\<close>

datatype event = EvProgress rat "pyval option" | EvError pyval

text \<open>
  \<open>max_iterations = int(600 / 0.3)\<close>: the quotient of the two doubles is \<open>2000.0\<close>.
\<close>

definition max_iterations :: nat where
  "max_iterations = 2000"

text \<open>
  How the generator stops: its code ran to the end of the loop (\<open>Finished\<close>), an
  exception left the loop (\<open>Raised\<close>), or the consumer closed it while it waited at a
  \<open>yield\<close> (\<open>Closed\<close>: \<open>GeneratorExit\<close> is raised there, the handler at the end of
  the generator logs the disconnection, and no statement after that \<open>yield\<close> runs).
\<close>

datatype stream_exit = Finished | Raised | Closed

text \<open>
  The generator \<open>event_stream\<close> of \<open>progress_stream\<close>, a generator driven by its
  consumer. \<open>calls\<close> is the number of times the consumer still asks for the next event,
  the request being served included; each request runs the code up to the next
  \<open>yield\<close>, and after its last request the consumer closes the stream. So the code
  that follows a \<open>yield\<close> runs only if one more request comes: with \<open>calls \<le> 1\<close> at
  a \<open>yield\<close> the stream ends there. \<open>world i\<close> is the store as the \<open>i\<close>-th poll
  finds it: other processes may write between polls, and the sleep itself changes
  nothing. The loop returns the events yielded, the iteration count at exit, the store
  written (when the stall guard reached its \<open>update_job\<close>) and how it stopped. An
  exception is \<open>float\<close> of a progress field that does not parse, or a refused write.
  The store is taken to be reachable, so \<open>get_job\<close> does not raise.
\<close>

function stream_loop ::
  "(nat \<Rightarrow> store) \<Rightarrow> string \<Rightarrow> int \<Rightarrow> nat \<Rightarrow> nat \<Rightarrow> rat
     \<Rightarrow> event list \<times> nat \<times> store option \<times> stream_exit"
where
  "stream_loop world job_id now calls iteration last_progress =
     (if iteration < max_iterations then
        (case get_job (world (Suc iteration)) job_id of
           None \<Rightarrow>
             ([EvError (PStr ''Job not found'')], Suc iteration, None,
              if calls \<le> 1 then Closed else Finished)
         | Some job \<Rightarrow>
             (case py_float (dict_get job ''progress'' (PInt 0)) of
                Inl e \<Rightarrow> ([], Suc iteration, None, Raised)
              | Inr current_progress \<Rightarrow>
                  (let job_status = dict_get job ''status'' (PStr ''queued'');
                       error_msg = dict_get job ''error'' (PStr []);
                       file_name = dict_get job ''file_name'' (PStr []);
                       changed = (current_progress \<noteq> last_progress);
                       sent = (if changed
                               then [EvProgress current_progress
                                       (if truthy file_name \<and> current_progress \<ge> 100
                                        then Some file_name else None)]
                               else []);
                       calls' = (if changed then calls - 1 else calls);
                       last_progress' = (if changed then current_progress else last_progress)
                   in if changed \<and> calls' = 0
                      then (sent, Suc iteration, None, Closed)
                      else if truthy error_msg
                      then (sent @ [EvError error_msg], Suc iteration, None,
                            if calls' \<le> 1 then Closed else Finished)
                      else if job_status \<in> {PStr ''done'', PStr ''error''}
                      then (sent, Suc iteration, None, Finished)
                      else if job_status = PStr ''running'' \<and> Suc iteration > 100 \<and>
                              current_progress = 0
                      then
                        (if calls' \<le> 1
                         then (sent @ [EvError (PStr ''Download timed out (no progress)'')],
                               Suc iteration, None, Closed)
                         else
                           (case update_job (world (Suc iteration)) job_id
                                   [(''status'', PStr ''error''),
                                    (''error'', PStr ''Timeout: no progress'')] now of
                              (s', Inl e) \<Rightarrow>
                                (sent @ [EvError (PStr ''Download timed out (no progress)'')],
                                 Suc iteration, Some s', Raised)
                            | (s', Inr updated) \<Rightarrow>
                                (sent @ [EvError (PStr ''Download timed out (no progress)'')],
                                 Suc iteration, Some s', Finished)))
                      else
                        (case stream_loop world job_id now calls' (Suc iteration) last_progress' of
                           (evs, rest) \<Rightarrow> (sent @ evs, rest)))))
      else ([], iteration, None, Finished))"
  by pat_completeness auto
termination
  by (relation "measure (\<lambda>(world, job_id, now, calls, iteration, last_progress).
                  max_iterations - iteration)")
     auto

text \<open>
  The whole generator, for a consumer that asks \<open>calls\<close> times. With no request the
  code never starts. After the loop: nothing more when the stream was closed; an
  exception becomes the event \<open>Streaming error\<close>; otherwise, when the iteration count
  has reached the maximum, the event \<open>Timeout\<close> follows. A consumer that reads the
  stream to its end is one that asks more often than there are events.
\<close>

definition event_stream ::
  "(nat \<Rightarrow> store) \<Rightarrow> string \<Rightarrow> int \<Rightarrow> nat \<Rightarrow> event list \<times> store option" where
  "event_stream world job_id now calls =
     (if calls = 0 then ([], None)
      else
        (case stream_loop world job_id now calls 0 (- 1) of
           (evs, iteration, written, how) \<Rightarrow>
             (case how of
                Closed \<Rightarrow> (evs, written)
              | Raised \<Rightarrow> (evs @ [EvError (PStr ''Streaming error'')], written)
              | Finished \<Rightarrow>
                  if iteration \<ge> max_iterations
                  then (evs @ [EvError (PStr ''Timeout'')], written)
                  else (evs, written))))"

text \<open>
  A record as the stall guard wants it: present, \<open>progress\<close> 0, \<open>status = running\<close>,
  and \<open>error\<close> empty. \<open>frozen s\<close> is the world in which nobody else writes.
\<close>

definition stalled :: "store \<Rightarrow> string \<Rightarrow> bool" where
  "stalled s job_id =
     (case get_job s job_id of
        None \<Rightarrow> False
      | Some job \<Rightarrow>
          py_float (dict_get job ''progress'' (PInt 0)) = Inr 0 \<and>
          dict_get job ''status'' (PStr ''queued'') = PStr ''running'' \<and>
          \<not> truthy (dict_get job ''error'' (PStr [])))"

definition frozen :: "store \<Rightarrow> nat \<Rightarrow> store" where
  "frozen s i = s"

declare stream_loop.simps [simp del]

section \<open>Deleting a job and its file (main.py, app/services/jobs.py)\<close>

text \<open>
  The file system as the delete guard sees it: the regular files and the directories, by
  their absolute normal paths, the working directory, and the files whose removal the
  system refuses. There are no symbolic links.
\<close>

datatype os_error = PermissionError | FileNotFoundError | IsADirectoryError

record filesystem =
  files :: "string set"
  dirs :: "string set"
  cwd :: string
  read_only :: "string set"

text \<open>
  \<open>str.startswith\<close>, \<open>str.split('/')\<close> and \<open>'/'.join\<close>, and the functions of
  \<open>os.path\<close> on a POSIX system: \<open>isabs\<close>, \<open>join\<close>, \<open>normpath\<close> and
  \<open>abspath\<close>.
\<close>

definition startswith :: "string \<Rightarrow> string \<Rightarrow> bool" where
  "startswith s p = (take (length p) s = p)"

fun split_slash :: "string \<Rightarrow> string list" where
  "split_slash [] = [Nil]"
| "split_slash (c # cs) =
     (if c = CHR ''/'' then [] # split_slash cs
      else (case split_slash cs of [] \<Rightarrow> [c # Nil] | w # ws \<Rightarrow> (c # w) # ws))"

fun join_slash :: "string list \<Rightarrow> string" where
  "join_slash [] = []"
| "join_slash [w] = w"
| "join_slash (w # ws) = w @ ''/'' @ join_slash ws"

definition isabs :: "string \<Rightarrow> bool" where
  "isabs p = startswith p ''/''"

definition path_join :: "string \<Rightarrow> string \<Rightarrow> string" where
  "path_join a b =
     (if isabs b then b
      else if a = [] \<or> last a = CHR ''/'' then a @ b
      else a @ ''/'' @ b)"

fun norm_comps :: "bool \<Rightarrow> string list \<Rightarrow> string list \<Rightarrow> string list" where
  "norm_comps initial_slashes new_comps [] = new_comps"
| "norm_comps initial_slashes new_comps (component # comps) =
     (if component = [] \<or> component = ''.'' then norm_comps initial_slashes new_comps comps
      else if component \<noteq> ''..'' \<or> (\<not> initial_slashes \<and> new_comps = []) \<or>
              (new_comps \<noteq> [] \<and> last new_comps = ''..'')
      then norm_comps initial_slashes (new_comps @ [component]) comps
      else if new_comps \<noteq> [] then norm_comps initial_slashes (butlast new_comps) comps
      else norm_comps initial_slashes new_comps comps)"

definition normpath :: "string \<Rightarrow> string" where
  "normpath path =
     (if path = [] then ''.''
      else
        (let initial_slashes =
               (if \<not> startswith path ''/'' then 0
                else if startswith path ''//'' \<and> \<not> startswith path ''///'' then 2
                else (1::nat));
             comps = norm_comps (initial_slashes \<noteq> 0) [] (split_slash path);
             joined = replicate initial_slashes CHR ''/'' @ join_slash comps
         in if joined = [] then ''.'' else joined))"

definition abspath :: "filesystem \<Rightarrow> string \<Rightarrow> string" where
  "abspath fs path = normpath (if isabs path then path else path_join (cwd fs) path)"

text \<open>
  How the system finds the entry a path names. The walk starts at the root for an
  absolute path (any number of leading slashes) and at the working directory otherwise;
  every directory on the way must exist; an empty component or \<open>.\<close> stays where it is,
  \<open>..\<close> goes to the parent directory (the root is its own parent), and a name goes to
  that entry of the current directory. The empty path names nothing.
\<close>

definition path_parent :: "string \<Rightarrow> string" where
  "path_parent p = ''/'' @ join_slash (butlast (norm_comps True [] (split_slash p)))"

definition path_child :: "string \<Rightarrow> string \<Rightarrow> string" where
  "path_child d name = (if d = ''/'' then d @ name else d @ ''/'' @ name)"

fun walk :: "filesystem \<Rightarrow> string \<Rightarrow> string list \<Rightarrow> string option" where
  "walk fs cur [] = Some cur"
| "walk fs cur (c # cs) =
     (if cur \<notin> dirs fs then None
      else if c = [] \<or> c = ''.'' then walk fs cur cs
      else if c = ''..'' then walk fs (path_parent cur) cs
      else if path_child cur c \<in> files fs \<union> dirs fs then walk fs (path_child cur c) cs
      else None)"

definition resolve :: "filesystem \<Rightarrow> string \<Rightarrow> string option" where
  "resolve fs path =
     (if path = [] then None
      else walk fs (if isabs path then ''/'' else cwd fs) (split_slash path))"

text \<open>
  \<open>os.path.exists\<close>, \<open>os.path.isfile\<close> and \<open>os.remove\<close>, which raises for a path
  that names nothing, for a directory, and for a file the system refuses to remove.
\<close>

definition path_exists :: "filesystem \<Rightarrow> string \<Rightarrow> bool" where
  "path_exists fs path = (resolve fs path \<noteq> None)"

definition isfile :: "filesystem \<Rightarrow> string \<Rightarrow> bool" where
  "isfile fs path = (case resolve fs path of None \<Rightarrow> False | Some p \<Rightarrow> p \<in> files fs)"

definition os_remove :: "filesystem \<Rightarrow> string \<Rightarrow> os_error + filesystem" where
  "os_remove fs path =
     (case resolve fs path of
        None \<Rightarrow> Inl FileNotFoundError
      | Some p \<Rightarrow>
          if p \<notin> files fs then Inl IsADirectoryError
          else if p \<in> read_only fs then Inl PermissionError
          else Inr (fs\<lparr>files := files fs - {p}\<rparr>))"

text \<open>
  \<open>safe_delete_file\<close> of app/services/jobs.py, the one main.py imports.
  \<open>Config.DOWNLOAD_DIR\<close> is a parameter. The result is the file system, the returned
  flag and the lines printed.
\<close>

datatype printed = Blocked string | PermissionDenied string | ErrorDeleting string

definition safe_delete_file ::
  "string \<Rightarrow> filesystem \<Rightarrow> string \<Rightarrow> filesystem \<times> bool \<times> printed list" where
  "safe_delete_file DOWNLOAD_DIR fs file_path =
     (if file_path = [] \<or> \<not> path_exists fs file_path then (fs, True, [])
      else
        (let abs_file_path = abspath fs file_path;
             abs_downloads_dir = abspath fs DOWNLOAD_DIR
         in if \<not> startswith abs_file_path abs_downloads_dir
            then (fs, False, [Blocked file_path])
            else if \<not> isfile fs abs_file_path then (fs, False, [])
            else
              (case os_remove fs abs_file_path of
                 Inr fs' \<Rightarrow> (fs', True, [])
               | Inl PermissionError \<Rightarrow> (fs, False, [PermissionDenied file_path])
               | Inl other \<Rightarrow> (fs, False, [ErrorDeleting file_path]))))"

text \<open>
  \<open>delete_job_endpoint\<close>: the answer is \<open>{"error": ...}\<close> or
  \<open>{"status": "deleted", "job_id": ...}\<close>. The flag \<open>safe_delete_file\<close> returns is
  dropped. \<open>file_path\<close> is a text field, read back as a string; a number there is
  outside what the model represents and no file is touched for it.
\<close>

datatype response = ErrorResponse string | DeletedResponse string

definition delete_job_endpoint ::
  "string \<Rightarrow> store \<Rightarrow> filesystem \<Rightarrow> string \<Rightarrow> store \<times> filesystem \<times> response \<times> printed list" where
  "delete_job_endpoint DOWNLOAD_DIR s fs job_id =
     (case get_job s job_id of
        None \<Rightarrow> (s, fs, ErrorResponse ''Job not found'', [])
      | Some job \<Rightarrow>
          if dict_get job ''status'' PNone = PStr ''running''
          then (s, fs, ErrorResponse ''Cannot delete a running job'', [])
          else
            (let (fs', deleted, out) =
                   (case dict_get job ''file_path'' PNone of
                      PStr file_path \<Rightarrow>
                        if file_path \<noteq> [] then safe_delete_file DOWNLOAD_DIR fs file_path
                        else (fs, True, [])
                    | other \<Rightarrow> (fs, True, []));
                 (s', found) = delete_job s job_id
             in (s', fs', DeletedResponse job_id, out)))"

text \<open>
  What the specification asks of the guard, in its own words: the file resolves, after
  normalisation, to inside the output directory, that is to the directory itself or to a
  path below it.
\<close>

definition inside_downloads :: "string \<Rightarrow> filesystem \<Rightarrow> string \<Rightarrow> bool" where
  "inside_downloads DOWNLOAD_DIR fs file_path =
     (let p = abspath fs file_path; d = abspath fs DOWNLOAD_DIR
      in p = d \<or> startswith p (if last d = CHR ''/'' then d else d @ ''/''))"

text \<open>
  A disk with a downloads directory and a sibling directory whose name starts with the
  same letters, and a store with one job that names a file.
\<close>

definition DOWNLOADS :: string where
  "DOWNLOADS = ''/srv/app/downloads''"

definition disk :: filesystem where
  "disk =
     \<lparr>files = {''/srv/app/downloads/video_1.mp4'', ''/srv/app/downloads_private/keys.txt'',
               ''/etc/passwd''},
      dirs = {''/'', ''/etc'', ''/srv'', ''/srv/app'', ''/srv/app/downloads'',
              ''/srv/app/downloads_private''},
      cwd = ''/srv/app'', read_only = {}\<rparr>"

definition job_with_file :: "string \<Rightarrow> string \<Rightarrow> store" where
  "job_with_file status file_path =
     \<lparr>hashes = [job_key ''j'' \<mapsto>
         [''job_id'' \<mapsto> PStr ''j'', ''status'' \<mapsto> PStr status, ''progress'' \<mapsto> PFloat 100,
          ''file_name'' \<mapsto> PStr ''keys.txt'', ''file_path'' \<mapsto> PStr file_path]],
      ttl = [job_key ''j'' \<mapsto> 86400], jobs_all = [''j''],
      sem_count = Some 0, sem_active = {}, queue = []\<rparr>"

section \<open>Properties of the job record store\<close>

lemma parse_numeric_apply:
  "parse_numeric h f =
     (if f \<in> set numeric_fields then map_option (parse_field f) (h f) else h f)"
  by (auto simp: parse_numeric_def numeric_fields_def split: option.splits)

lemma get_job_None_iff: "get_job s job_id = None \<longleftrightarrow> hashes s (job_key job_id) = None"
  by (simp add: get_job_def split: option.splits)

lemma None_in_stamped:
  "PNone \<in> snd ` set (AList.update k (PInt t) updates) \<longleftrightarrow>
   PNone \<in> snd ` set (AList.update k (PInt t') updates)"
  by (induction updates) auto

lemma stamped_nonempty: "AList.update k v updates \<noteq> []"
  by (cases updates) auto

lemma update_job_result:
  "update_job s job_id updates now =
     (case hashes s (job_key job_id) of
        None \<Rightarrow> (s, Inr False)
      | Some h \<Rightarrow>
          if PNone \<in> snd ` set (AList.update ''updated_at'' (PInt now) updates) then (s, Inl DataError)
          else (s\<lparr>hashes := (hashes s)(job_key job_id \<mapsto>
                     h ++ map_of (AList.update ''updated_at'' (PInt now) updates)),
                   ttl := (ttl s)(job_key job_id \<mapsto> JOB_EXPIRY_SECONDS)\<rparr>, Inr True))"
  by (simp add: update_job_def hset_def expire_def exists_key_def stamped_nonempty
        split: option.splits)

lemma update_job_absent:
  "hashes s (job_key job_id) = None \<Longrightarrow> update_job s job_id updates t = (s, Inr False)"
  by (simp add: update_job_result)

lemma update_job_refused:
  "hashes s (job_key job_id) = Some h \<Longrightarrow>
   PNone \<in> snd ` set (AList.update ''updated_at'' (PInt t) updates) \<Longrightarrow>
   update_job s job_id updates t' = (s, Inl DataError)"
  using None_in_stamped [of "''updated_at''" t updates t'] by (simp add: update_job_result)

lemma update_job_written:
  "hashes s (job_key job_id) = Some h \<Longrightarrow>
   PNone \<notin> snd ` set (AList.update ''updated_at'' (PInt t) updates) \<Longrightarrow>
   update_job s job_id updates t' =
     (s\<lparr>hashes := (hashes s)(job_key job_id \<mapsto>
                     h ++ map_of (AList.update ''updated_at'' (PInt t') updates)),
                   ttl := (ttl s)(job_key job_id \<mapsto> JOB_EXPIRY_SECONDS)\<rparr>, Inr True)"
  using None_in_stamped [of "''updated_at''" t updates t'] by (simp add: update_job_result)

lemma restamp_field:
  "f \<noteq> k \<Longrightarrow>
   ((h ++ map_of (AList.update k v updates)) ++ map_of (AList.update k v' updates)) f =
   (h ++ map_of (AList.update k v updates)) f"
  by (simp add: map_add_def update_conv' split: option.splits)

lemma idem_absent: "hashes s (job_key job_id) = None \<Longrightarrow> (let s1 = fst (update_job s job_id updates t1);
       s2 = fst (update_job s1 job_id updates t2)
   in (\<forall>f. f \<noteq> ''updated_at'' \<longrightarrow> hget s2 (job_key job_id) f = hget s1 (job_key job_id) f) \<and>
      (\<forall>k. k \<noteq> job_key job_id \<longrightarrow> hashes s2 k = hashes s1 k) \<and>
      exists_key s2 (job_key job_id) = exists_key s1 (job_key job_id) \<and>
      ttl s2 = ttl s1 \<and> jobs_all s2 = jobs_all s1 \<and> sem_count s2 = sem_count s1 \<and>
      sem_active s2 = sem_active s1 \<and> queue s2 = queue s1 \<and>
      snd (update_job s1 job_id updates t2) = snd (update_job s job_id updates t1))"
  unfolding Let_def by (simp add: update_job_absent)

lemma idem_refused:
  "hashes s (job_key job_id) = Some h \<Longrightarrow>
   PNone \<in> snd ` set (AList.update ''updated_at'' (PInt t1) updates) \<Longrightarrow> (let s1 = fst (update_job s job_id updates t1);
       s2 = fst (update_job s1 job_id updates t2)
   in (\<forall>f. f \<noteq> ''updated_at'' \<longrightarrow> hget s2 (job_key job_id) f = hget s1 (job_key job_id) f) \<and>
      (\<forall>k. k \<noteq> job_key job_id \<longrightarrow> hashes s2 k = hashes s1 k) \<and>
      exists_key s2 (job_key job_id) = exists_key s1 (job_key job_id) \<and>
      ttl s2 = ttl s1 \<and> jobs_all s2 = jobs_all s1 \<and> sem_count s2 = sem_count s1 \<and>
      sem_active s2 = sem_active s1 \<and> queue s2 = queue s1 \<and>
      snd (update_job s1 job_id updates t2) = snd (update_job s job_id updates t1))"
  unfolding Let_def by (simp add: update_job_refused)

lemma idem_written:
  "hashes s (job_key job_id) = Some h \<Longrightarrow>
   PNone \<notin> snd ` set (AList.update ''updated_at'' (PInt t1) updates) \<Longrightarrow> (let s1 = fst (update_job s job_id updates t1);
       s2 = fst (update_job s1 job_id updates t2)
   in (\<forall>f. f \<noteq> ''updated_at'' \<longrightarrow> hget s2 (job_key job_id) f = hget s1 (job_key job_id) f) \<and>
      (\<forall>k. k \<noteq> job_key job_id \<longrightarrow> hashes s2 k = hashes s1 k) \<and>
      exists_key s2 (job_key job_id) = exists_key s1 (job_key job_id) \<and>
      ttl s2 = ttl s1 \<and> jobs_all s2 = jobs_all s1 \<and> sem_count s2 = sem_count s1 \<and>
      sem_active s2 = sem_active s1 \<and> queue s2 = queue s1 \<and>
      snd (update_job s1 job_id updates t2) = snd (update_job s job_id updates t1))"
  unfolding Let_def
  by (simp add: update_job_written [where t = t1] hget_def exists_key_def restamp_field)

text \<open>
  C7. \<open>update_job\<close> on an id with no record returns \<open>False\<close> and leaves the whole
  store as it was: no hash is created for the id, the recency list, the expiries and the
  admission ledger are untouched, and the id still has no record afterwards.
\<close>

theorem update_job_not_found:
  "get_job s job_id = None \<Longrightarrow>
     update_job s job_id updates now = (s, Inr False) \<and>
     get_job (fst (update_job s job_id updates now)) job_id = None"
  by (simp add: update_job_def exists_key_def get_job_None_iff)

theorem update_job_not_found_witness:
  "get_job example_store ''zz'' = None \<and>
   update_job example_store ''zz'' [(''progress'', PInt 50)] 77 = (example_store, Inr False)"
proof -
  have h: "get_job example_store ''zz'' = None"
    by (simp add: get_job_def example_store_def job_key_def JOB_PREFIX_def)
  show ?thesis
    using h update_job_not_found [OF h, of "[(''progress'', PInt 50)]" 77]
    by simp
qed

text \<open>
  C9. Two calls of \<open>update_job\<close> with the same keyword arguments (for instance
  \<open>progress=50\<close>), made at times \<open>t1\<close> and \<open>t2\<close>: after the second call every
  field of the record other than \<open>updated_at\<close> is what it was after the first call, the
  record exists exactly when it did, every other key, the expiries, the recency list and
  the admission ledger are the same, and the two calls return the same answer.
\<close>

theorem update_job_idempotent:
  "let s1 = fst (update_job s job_id updates t1);
       s2 = fst (update_job s1 job_id updates t2)
   in (\<forall>f. f \<noteq> ''updated_at'' \<longrightarrow> hget s2 (job_key job_id) f = hget s1 (job_key job_id) f) \<and>
      (\<forall>k. k \<noteq> job_key job_id \<longrightarrow> hashes s2 k = hashes s1 k) \<and>
      exists_key s2 (job_key job_id) = exists_key s1 (job_key job_id) \<and>
      ttl s2 = ttl s1 \<and> jobs_all s2 = jobs_all s1 \<and> sem_count s2 = sem_count s1 \<and>
      sem_active s2 = sem_active s1 \<and> queue s2 = queue s1 \<and>
      snd (update_job s1 job_id updates t2) = snd (update_job s job_id updates t1)"
proof (cases "hashes s (job_key job_id)")
  case None
  then show ?thesis by (rule idem_absent)
next
  case (Some h)
  then show ?thesis
    by (cases "PNone \<in> snd ` set (AList.update ''updated_at'' (PInt t1) updates)")
       (rule idem_refused, assumption+, rule idem_written, assumption+)
qed

theorem update_job_idempotent_witness:
  "''progress'' \<noteq> ''updated_at'' \<and>
   hget (fst (update_job (fst (update_job example_store ''a'' [(''progress'', PInt 50)] 20))
          ''a'' [(''progress'', PInt 50)] 31)) (job_key ''a'') ''progress'' = Some (PInt 50) \<and>
   hget (fst (update_job example_store ''a'' [(''progress'', PInt 50)] 20))
        (job_key ''a'') ''progress'' = Some (PInt 50)"
proof -
  have "hget (fst (update_job example_store ''a'' [(''progress'', PInt 50)] 20))
        (job_key ''a'') ''progress'' = Some (PInt 50)"
    by (simp add: update_job_def exists_key_def hset_def expire_def hget_def example_store_def)
  then show ?thesis
    using update_job_idempotent [of example_store "''a''" "[(''progress'', PInt 50)]" 20 31]
    by (simp add: Let_def)
qed

text \<open>
  C10. \<open>delete_job\<close> removes every occurrence of the id from the recency list whether
  or not a record existed, so the id is never in the list afterwards; it returns whether
  a record existed (\<open>False\<close> for an unknown id, whose list entries are removed all the
  same), and the id has no record afterwards.
\<close>

theorem delete_job_index:
  "jobs_all (fst (delete_job s job_id)) = removeAll job_id (jobs_all s) \<and>
   job_id \<notin> set (jobs_all (fst (delete_job s job_id))) \<and>
   snd (delete_job s job_id) = exists_key s (job_key job_id) \<and>
   get_job (fst (delete_job s job_id)) job_id = None"
  by (simp add: delete_job_def delete_key_def Let_def exists_key_def get_job_def)

theorem delete_job_index_witness:
  "jobs_all (fst (delete_job example_store ''b'')) = [''a''] \<and>
   snd (delete_job example_store ''b'') = False"
  using delete_job_index [of example_store "''b''"]
  by (simp add: example_store_def exists_key_def job_key_def JOB_PREFIX_def)

section \<open>Properties of the retry manager\<close>

lemma job_key_inj: "job_key a = job_key b \<longleftrightarrow> a = b"
  by (simp add: job_key_def)

lemma parse_field_PInt: "parse_field ''retry_count'' (PInt n) = PInt n"
  by (simp add: parse_field_def)

lemma get_job_Some: "hashes s (job_key job_id) = Some h \<Longrightarrow> get_job s job_id = Some (parse_numeric h)"
  by (simp add: get_job_def)

lemma parsed_retry_count:
  "h ''retry_count'' = Some (PInt n) \<Longrightarrow> dict_get (parse_numeric h) ''retry_count'' (PInt 0) = PInt n"
  by (simp add: dict_get_def parse_numeric_apply numeric_fields_def parse_field_PInt)

lemma parsed_text_field:
  "f \<notin> set numeric_fields \<Longrightarrow> parse_numeric h f = h f"
  by (simp add: parse_numeric_apply)

lemma pick_param_original:
  "k \<in> set request_fields \<Longrightarrow> h k = Some v \<Longrightarrow> pick_param None (parse_numeric h) k = v"
  by (auto simp: pick_param_def dict_get_def parse_numeric_apply numeric_fields_def request_fields_def)

lemma merged_job_id:
  "map_of (retry_job_data np job oid nid n) ''job_id'' = Some (PStr nid)"
  by (simp add: retry_job_data_def)

lemma merged_fields:
  "map_of (AList.merge (defaults now) (retry_job_data np job oid nid n)) ''retry_count'' = Some (PInt (n + 1))"
  "map_of (AList.merge (defaults now) (retry_job_data np job oid nid n)) ''parent_job_id'' = Some (PStr oid)"
  "map_of (AList.merge (defaults now) (retry_job_data np job oid nid n)) ''status'' = Some (PStr ''queued'')"
  by (simp_all add: merge_conv' retry_job_data_def defaults_def)

lemma merged_values:
  "snd ` set (AList.merge (defaults now) (retry_job_data np job oid nid n)) =
     {PInt now, PStr [], PStr nid, PStr ''queued'', PInt 0, PInt (n + 1), PStr oid} \<union>
     (\<lambda>k. pick_param np job k) ` set request_fields"
  by (simp add: retry_job_data_def defaults_def request_fields_def) blast

lemma create_job_retry:
  assumes "PNone \<notin> (\<lambda>k. pick_param np job k) ` set request_fields"
  shows "create_job s (retry_job_data np job oid nid n) now =
     Inr (s\<lparr>hashes := (hashes s)(job_key nid \<mapsto>
                 (case hashes s (job_key nid) of None \<Rightarrow> Map.empty | Some h \<Rightarrow> h) ++
                 map_of (AList.merge (defaults now) (retry_job_data np job oid nid n))),
             jobs_all := nid # jobs_all s,
             ttl := (ttl s)(job_key nid \<mapsto> JOB_EXPIRY_SECONDS)\<rparr>, PStr nid)"
proof -
  let ?m = "AList.merge (defaults now) (retry_job_data np job oid nid n)"
  have vals: "snd ` set ?m =
     {PInt now, PStr [], PStr nid, PStr ''queued'', PInt 0, PInt (n + 1), PStr oid} \<union>
     (\<lambda>k. pick_param np job k) ` set request_fields"
    by (rule merged_values)
  have no_none: "PNone \<notin> snd ` set ?m"
    unfolding vals using assms by simp
  have "PInt now \<in> snd ` set ?m"
    unfolding vals by simp
  then have nonempty: "?m \<noteq> []"
    by auto
  have w: "hset s (job_key nid) ?m =
      Inr (s\<lparr>hashes := (hashes s)(job_key nid \<mapsto>
             (case hashes s (job_key nid) of None \<Rightarrow> Map.empty | Some h \<Rightarrow> h) ++ map_of ?m)\<rparr>)"
    using no_none nonempty by (simp add: hset_def)
  show ?thesis
    by (simp add: create_job_def merged_job_id w expire_def exists_key_def)
qed







text \<open>
  C4 as stated fails for a record that names no request field. \<open>create_job\<close> makes
  such a record from \<open>job_id\<close>, \<open>status = error\<close> and \<open>retry_count = 2\<close>;
  \<open>can_retry\<close> holds for it, and \<open>create_retry_job\<close> raises \<open>DataError\<close>, the
  copied \<open>url\<close> being \<open>None\<close>: no record is made for the new id and the original gets
  no \<open>child_job_id\<close>.
\<close>

theorem retry_bare_record_raises:
  "(case create_job empty_store bare_failed_data 10 of
      Inl e \<Rightarrow> False
    | Inr (s, created) \<Rightarrow>
        can_retry 3 s ''bare'' = Inr True \<and>
        snd (create_retry_job 3 s ''bare'' None ''new'' 20 21) = Inl DataError \<and>
        get_job (fst (create_retry_job 3 s ''bare'' None ''new'' 20 21)) ''new'' = None \<and>
        hget (fst (create_retry_job 3 s ''bare'' None ''new'' 20 21)) (job_key ''bare'')
          ''child_job_id'' = Some (PStr []))"
  by code_simp

text \<open>
  C4 (as the code has it). A record with \<open>status = error\<close> that has used all but one of
  its \<open>M\<close> retries (\<open>retry_count = M - 1\<close>; the scenario has \<open>M = 3\<close>) and carries
  its five request fields, as every record made by the download endpoints or by a retry
  does: \<open>can_retry\<close> holds; \<open>create_retry_job\<close> returns the new id; the new record
  has \<open>retry_count = M\<close> and \<open>parent_job_id\<close> the original id; the original record
  gets \<open>child_job_id\<close> the new id and keeps its \<open>status\<close> and \<open>error\<close>; and
  \<open>create_retry_job\<close> on the new record returns \<open>None\<close> and changes nothing.
  The new id differs from the original one, as a fresh UUID does.
\<close>

theorem retry_scenario:
  assumes orig: "hashes s (job_key job_id) = Some h"
    and failed: "h ''status'' = Some (PStr ''error'')"
    and count: "h ''retry_count'' = Some (PInt (M - 1))"
    and fields: "\<forall>k \<in> set request_fields. \<exists>v. h k = Some v \<and> v \<noteq> PNone"
    and fresh: "new_id \<noteq> job_id"
  shows "let s' = fst (create_retry_job M s job_id None new_id t1 t2) in
     can_retry M s job_id = Inr True \<and>
     snd (create_retry_job M s job_id None new_id t1 t2) = Inr (Some new_id) \<and>
     hget s' (job_key new_id) ''retry_count'' = Some (PInt M) \<and>
     hget s' (job_key new_id) ''parent_job_id'' = Some (PStr job_id) \<and>
     hget s' (job_key job_id) ''child_job_id'' = Some (PStr new_id) \<and>
     hget s' (job_key job_id) ''status'' = Some (PStr ''error'') \<and>
     hget s' (job_key job_id) ''error'' = h ''error'' \<and>
     can_retry M s' new_id = Inr False \<and>
     create_retry_job M s' new_id None next_id t3 t4 = (s', Inr None)"
proof -
  let ?job = "parse_numeric h"
  let ?m = "AList.merge (defaults t1) (retry_job_data None ?job job_id new_id (M - 1))"
  let ?hnew = "(case hashes s (job_key new_id) of None \<Rightarrow> Map.empty | Some h \<Rightarrow> h) ++ map_of ?m"
  define s1 where "s1 = s\<lparr>hashes := (hashes s)(job_key new_id \<mapsto> ?hnew),
             jobs_all := new_id # jobs_all s,
             ttl := (ttl s)(job_key new_id \<mapsto> JOB_EXPIRY_SECONDS)\<rparr>"
  define s2 where "s2 = s1\<lparr>hashes := (hashes s1)(job_key job_id \<mapsto>
                     h ++ map_of (AList.update ''updated_at'' (PInt t2) [(''child_job_id'', PStr new_id)])),
                   ttl := (ttl s1)(job_key job_id \<mapsto> JOB_EXPIRY_SECONDS)\<rparr>"
  have g: "get_job s job_id = Some ?job"
    using orig by (rule get_job_Some)
  have rc: "py_int (dict_get ?job ''retry_count'' (PInt 0)) = Inr (M - 1)"
    using count by (simp add: parsed_retry_count)
  have st: "dict_get ?job ''status'' PNone = PStr ''error''"
    using failed by (simp add: dict_get_def parsed_text_field numeric_fields_def)
  have can: "can_retry M s job_id = Inr True"
    by (simp add: can_retry_def g rc st)
  have params: "PNone \<notin> (\<lambda>k. pick_param None ?job k) ` set request_fields"
    using fields pick_param_original [of _ h] by force
  have c: "create_job s (retry_job_data None ?job job_id new_id (M - 1)) t1 = Inr (s1, PStr new_id)"
    unfolding s1_def by (rule create_job_retry [OF params])
  have o1: "hashes s1 (job_key job_id) = Some h"
    using orig fresh by (simp add: s1_def job_key_inj)
  have u: "update_job s1 job_id [(''child_job_id'', PStr new_id)] t2 = (s2, Inr True)"
    unfolding s2_def by (rule update_job_written [OF o1, where t = t2]) simp
  have r: "create_retry_job M s job_id None new_id t1 t2 = (s2, Inr (Some new_id))"
    by (simp add: create_retry_job_def g rc c u)
  have n2: "hashes s2 (job_key new_id) = Some ?hnew"
    using fresh by (simp add: s2_def s1_def job_key_inj)
  have new_count: "?hnew ''retry_count'' = Some (PInt M)"
    using merged_fields(1) [of t1 None ?job job_id new_id "M - 1"] by (simp add: map_add_def)
  have new_parent: "?hnew ''parent_job_id'' = Some (PStr job_id)"
    using merged_fields(2) [of t1 None ?job job_id new_id "M - 1"] by (simp add: map_add_def)
  have new_status: "?hnew ''status'' = Some (PStr ''queued'')"
    using merged_fields(3) [of t1 None ?job job_id new_id "M - 1"] by (simp add: map_add_def)
  have g2: "get_job s2 new_id = Some (parse_numeric ?hnew)"
    using n2 by (rule get_job_Some)
  have rc2: "py_int (dict_get (parse_numeric ?hnew) ''retry_count'' (PInt 0)) = Inr M"
    using new_count by (simp add: parsed_retry_count)
  have again: "create_retry_job M s2 new_id None next_id t3 t4 = (s2, Inr None)"
    by (simp add: create_retry_job_def g2 rc2)
  have st2: "dict_get (parse_numeric ?hnew) ''status'' PNone = PStr ''queued''"
    using new_status by (simp add: dict_get_def parsed_text_field numeric_fields_def)
  have cannot: "can_retry M s2 new_id = Inr False"
    by (simp add: can_retry_def g2 st2)
  have o2: "hget s2 (job_key job_id) ''child_job_id'' = Some (PStr new_id) \<and>
     hget s2 (job_key job_id) ''status'' = Some (PStr ''error'') \<and>
     hget s2 (job_key job_id) ''error'' = h ''error''"
    using failed by (simp add: hget_def s2_def map_add_def)
  have n3: "hget s2 (job_key new_id) ''retry_count'' = Some (PInt M) \<and>
     hget s2 (job_key new_id) ''parent_job_id'' = Some (PStr job_id)"
    using n2 new_count new_parent by (simp add: hget_def)
  show ?thesis
    unfolding Let_def r fst_conv snd_conv using can again cannot o2 n3 by simp
qed

theorem retry_scenario_witness:
  "hashes failed_store (job_key ''orig'') = Some failed_job \<and>
   failed_job ''status'' = Some (PStr ''error'') \<and>
   failed_job ''retry_count'' = Some (PInt (3 - 1)) \<and>
   list_all (\<lambda>k. \<exists>v. failed_job k = Some v \<and> v \<noteq> PNone) request_fields \<and>
   ''new'' \<noteq> ''orig'' \<and>
   (let s' = fst (create_retry_job 3 failed_store ''orig'' None ''new'' 20 21) in
     can_retry 3 failed_store ''orig'' = Inr True \<and>
     snd (create_retry_job 3 failed_store ''orig'' None ''new'' 20 21) = Inr (Some ''new'') \<and>
     hget s' (job_key ''new'') ''retry_count'' = Some (PInt 3) \<and>
     hget s' (job_key ''new'') ''parent_job_id'' = Some (PStr ''orig'') \<and>
     hget s' (job_key ''orig'') ''child_job_id'' = Some (PStr ''new'') \<and>
     hget s' (job_key ''orig'') ''status'' = Some (PStr ''error'') \<and>
     hget s' (job_key ''orig'') ''error'' = Some (PStr ''Download failed'') \<and>
     can_retry 3 s' ''new'' = Inr False \<and>
     create_retry_job 3 s' ''new'' None ''next'' 30 31 = (s', Inr None))"
proof -
  have h1: "hashes failed_store (job_key ''orig'') = Some failed_job"
    by (simp add: failed_store_def)
  have h2: "failed_job ''status'' = Some (PStr ''error'')"
    by (simp add: failed_job_def)
  have h3: "failed_job ''retry_count'' = Some (PInt (3 - 1))"
    by (simp add: failed_job_def)
  have h4: "\<forall>k \<in> set request_fields. \<exists>v. failed_job k = Some v \<and> v \<noteq> PNone"
    by (simp add: request_fields_def failed_job_def)
  have h5: "''new'' \<noteq> ''orig''"
    by simp
  have e: "failed_job ''error'' = Some (PStr ''Download failed'')"
    by (simp add: failed_job_def)
  have h4': "list_all (\<lambda>k. \<exists>v. failed_job k = Some v \<and> v \<noteq> PNone) request_fields"
    using h4 by (simp add: list_all_iff)
  show ?thesis
    using h1 h2 h3 h4' h5 retry_scenario [OF h1 h2 h3 h4 h5, of 20 21 "''next''" 30 31]
    unfolding e by simp
qed

section \<open>Properties of the admission ledger\<close>

lemma acquire_result:
  "acquire N clock s job_id timeout_seconds =
     Some (if stored_count s + 1 \<le> N
           then (s\<lparr>sem_count := Some (stored_count s + 1),
                   sem_active := insert job_id (sem_active s),
                   queue := removeAll job_id (queue s)\<rparr>, Inr True)
           else (s\<lparr>sem_count := Some (stored_count s)\<rparr>, Inl AttributeError))"
  unfolding acquire_def
  by (subst acquire_loop.simps)
     (simp add: incr_def decr_def lfrompop_def sadd_def lrem_queue_def stored_count_def)

lemma release_result:
  "release s job_id =
     s\<lparr>sem_active := sem_active s - {job_id}, sem_count := Some (max 0 (stored_count s - 1))\<rparr>"
  by (simp add: release_def srem_def decr_def set_count_def stored_count_def max_def)

lemma acquire_returns: "\<exists>s' outcome. acquire N clock s job_id t = Some (s', outcome)"
  by (cases "stored_count s + 1 \<le> N") (simp_all add: acquire_result)

lemma within_limit_acquire:
  "within_limit N s \<Longrightarrow> acquire N clock s job_id t = Some (s', outcome) \<Longrightarrow> within_limit N s'"
  by (auto simp: acquire_result within_limit_def stored_count_def split: option.splits if_splits)

lemma within_limit_release: "within_limit N s \<Longrightarrow> within_limit N (release s job_id)"
  by (auto simp: release_result within_limit_def stored_count_def split: option.splits)

lemma within_limit_run:
  "within_limit N s \<Longrightarrow> \<exists>s'. run N clock s calls = Some s' \<and> within_limit N s'"
proof (induction calls arbitrary: s)
  case Nil
  then show ?case by simp
next
  case (Cons c calls)
  show ?case
  proof (cases c)
    case (Acquire job_id t)
    obtain s1 outcome where a: "acquire N clock s job_id t = Some (s1, outcome)"
      using acquire_returns by blast
    have "within_limit N s1"
      using Cons.prems a by (rule within_limit_acquire)
    then show ?thesis
      using Cons.IH [of s1] Acquire a by simp
  next
    case (Release job_id)
    then show ?thesis
      using Cons.IH [of "release s job_id"] Cons.prems by (simp add: within_limit_release)
  qed
qed

lemma count_matches_acquire:
  "count_matches s \<Longrightarrow> job_id \<notin> sem_active s \<Longrightarrow>
   acquire N clock s job_id t = Some (s', outcome) \<Longrightarrow> count_matches s'"
  by (auto simp: acquire_result count_matches_def stored_count_def split: if_splits)

lemma count_matches_release:
  "count_matches s \<Longrightarrow> job_id \<in> sem_active s \<Longrightarrow> count_matches (release s job_id)"
proof -
  assume m: "count_matches s" and a: "job_id \<in> sem_active s"
  then have "card (sem_active s) > 0"
    by (auto simp: count_matches_def card_gt_0_iff)
  then show ?thesis
    using m a by (simp add: release_result count_matches_def stored_count_def)
qed

lemma count_matches_run:
  "count_matches s \<Longrightarrow> disciplined N clock s calls \<Longrightarrow>
   \<exists>s'. run N clock s calls = Some s' \<and> count_matches s'"
proof (induction calls arbitrary: s)
  case Nil
  then show ?case by simp
next
  case (Cons c calls)
  show ?case
  proof (cases c)
    case (Acquire job_id t)
    obtain s1 outcome where a: "acquire N clock s job_id t = Some (s1, outcome)"
      using acquire_returns by blast
    have d: "job_id \<notin> sem_active s" "disciplined N clock s1 calls"
      using Cons.prems(2) Acquire a by simp_all
    have "count_matches s1"
      using Cons.prems(1) d(1) a by (rule count_matches_acquire)
    then show ?thesis
      using Cons.IH [of s1] d(2) Acquire a by simp
  next
    case (Release job_id)
    then show ?thesis
      using Cons.IH [of "release s job_id"] Cons.prems by (simp add: count_matches_release)
  qed
qed

text \<open>
  C1 (as the code has it). Calls made one after the other on a freshly reset ledger with
  limit \<open>N \<ge> 0\<close>: every call returns, and after each of them
  \<open>0 \<le> active_count \<le> N\<close>. When the sequence is disciplined, \<open>active_count\<close> is
  also the number of jobs in the active set. The statement is about any sequence, so it
  covers every prefix, that is every point between two calls.
\<close>

theorem admission_bound:
  assumes "0 \<le> N"
  shows "\<exists>s'. run N clock (reset s) calls = Some s' \<and> within_limit N s' \<and>
           (disciplined N clock (reset s) calls \<longrightarrow> count_matches s')"
proof -
  have w: "within_limit N (reset s)"
    using assms by (simp add: within_limit_def reset_def)
  have m: "count_matches (reset s)"
    by (simp add: count_matches_def reset_def)
  obtain s' where r: "run N clock (reset s) calls = Some s'" "within_limit N s'"
    using within_limit_run [OF w] by blast
  have "count_matches s'" if "disciplined N clock (reset s) calls"
    using count_matches_run [OF m that] r(1) by simp
  then show ?thesis
    using r by blast
qed

theorem admission_bound_witness:
  "(0::int) \<le> 2 \<and>
   disciplined 2 ticking_clock (reset example_store)
     [Acquire ''A'' 300, Acquire ''B'' 300, Acquire ''C'' 0, Release ''A'', Acquire ''C'' 300] \<and>
   (\<exists>s'. run 2 ticking_clock (reset example_store)
     [Acquire ''A'' 300, Acquire ''B'' 300, Acquire ''C'' 0, Release ''A'', Acquire ''C'' 300] = Some s' \<and>
     within_limit 2 s' \<and> count_matches s')"
proof -
  have d: "disciplined 2 ticking_clock (reset example_store)
     [Acquire ''A'' 300, Acquire ''B'' 300, Acquire ''C'' 0, Release ''A'', Acquire ''C'' 300]"
    by (simp add: acquire_result release_result reset_def stored_count_def)
  show ?thesis
    using d admission_bound [of 2 ticking_clock example_store
        "[Acquire ''A'' 300, Acquire ''B'' 300, Acquire ''C'' 0, Release ''A'', Acquire ''C'' 300]"]
    by simp
qed

text \<open>
  C1 as stated fails for sequences that are not disciplined: the counter and the set
  are updated independently. After \<open>acquire(A)\<close>, \<open>release(B)\<close> the counter is 0 and
  the set is \<open>{A}\<close>; after \<open>acquire(A)\<close>, \<open>acquire(A)\<close> the counter is 2 and the set
  is \<open>{A}\<close>.
\<close>

theorem ledger_mismatch:
  "map_option sem_count (run 2 ticking_clock (reset example_store) [Acquire ''A'' 300, Release ''B''])
     = Some (Some 0) \<and>
   map_option sem_active (run 2 ticking_clock (reset example_store) [Acquire ''A'' 300, Release ''B''])
     = Some {''A''} \<and>
   map_option count_matches (run 2 ticking_clock (reset example_store) [Acquire ''A'' 300, Release ''B''])
     = Some False \<and>
   map_option sem_count (run 2 ticking_clock (reset example_store) [Acquire ''A'' 300, Acquire ''A'' 300])
     = Some (Some 2) \<and>
   map_option sem_active (run 2 ticking_clock (reset example_store) [Acquire ''A'' 300, Acquire ''A'' 300])
     = Some {''A''} \<and>
   map_option count_matches (run 2 ticking_clock (reset example_store) [Acquire ''A'' 300, Acquire ''A'' 300])
     = Some False"
  by (simp add: acquire_result release_result reset_def stored_count_def count_matches_def)

text \<open>
  C2, what the code does in the scenario. With limit 2 and both slots held by \<open>A\<close> and
  \<open>B\<close>, \<open>acquire(C, 0)\<close> increments the counter to 3, takes it back to 2 and then
  raises \<open>AttributeError\<close> at \<open>redis.lfrompop\<close>: it does not return \<open>False\<close> and
  the queue stays empty. After \<open>release(A)\<close> the counter is 1 and \<open>acquire(C)\<close> is
  granted.
\<close>

theorem acquire_over_limit_raises:
  "run 2 ticking_clock (reset example_store) [Acquire ''A'' 300, Acquire ''B'' 300] = Some two_held \<and>
   acquire 2 ticking_clock two_held ''C'' 0 = Some (two_held, Inl AttributeError) \<and>
   sem_count two_held = Some 2 \<and> queue two_held = [] \<and>
   sem_count (release two_held ''A'') = Some 1 \<and>
   map_option snd (acquire 2 ticking_clock (release two_held ''A'') ''C'' 300) = Some (Inr True)"
  by (simp add: acquire_result release_result reset_def stored_count_def two_held_def insert_commute)

lemma releases_nonneg:
  "0 \<le> stored_count (fold (\<lambda>j s. release s j) job_ids (release s job_id))"
proof (induction job_ids arbitrary: s job_id)
  case Nil
  show ?case
    by (simp add: release_result stored_count_def)
next
  case (Cons j job_ids)
  show ?case
    using Cons.IH [of "release s job_id" j] by simp
qed

text \<open>
  C5. After \<open>release\<close>, from any ledger whatever and for any job id, the stored
  counter is the old one less one, clamped at zero; so it is at least 0 after a release,
  and after any further releases that follow it.
\<close>

theorem release_never_negative:
  "sem_count (release s job_id) = Some (max 0 (stored_count s - 1)) \<and>
   0 \<le> stored_count (release s job_id) \<and>
   0 \<le> stored_count (fold (\<lambda>j s. release s j) job_ids (release s job_id))"
  using releases_nonneg [of job_ids s job_id] by (simp add: release_result stored_count_def)

theorem release_never_negative_witness:
  "sem_count (release (reset example_store) ''A'') = Some 0 \<and>
   sem_count (fold (\<lambda>j s. release s j) [''B'', ''C''] (release (reset example_store) ''A'')) = Some 0"
proof -
  have "sem_count (fold (\<lambda>j s. release s j) [''B'', ''C''] (release (reset example_store) ''A'')) = Some 0"
    by (simp add: release_result reset_def stored_count_def)
  then show ?thesis
    using release_never_negative [of "reset example_store" "''A''" "[''B'', ''C'']"]
    by (simp add: reset_def stored_count_def)
qed

section \<open>Properties of the progress stream\<close>

lemma stalledD:
  assumes "stalled s job_id"
  obtains job where "get_job s job_id = Some job"
    and "py_float (dict_get job ''progress'' (PInt 0)) = Inr 0"
    and "dict_get job ''status'' (PStr ''queued'') = PStr ''running''"
    and "\<not> truthy (dict_get job ''error'' (PStr []))"
  using assms by (auto simp: stalled_def split: option.splits)

lemma tick_first:
  assumes "stalled (world 1) job_id" and "2 \<le> calls"
  shows "stream_loop world job_id now calls 0 (- 1) =
     (case stream_loop world job_id now (calls - 1) 1 0 of
        (evs, rest) \<Rightarrow> (EvProgress 0 None # evs, rest))"
proof -
  from assms(1) obtain job where j: "get_job (world (Suc 0)) job_id = Some job"
    "py_float (dict_get job ''progress'' (PInt 0)) = Inr 0"
    "dict_get job ''status'' (PStr ''queued'') = PStr ''running''"
    "\<not> truthy (dict_get job ''error'' (PStr []))"
    by (auto elim: stalledD)
  show ?thesis
    by (subst stream_loop.simps) (use assms(2) in \<open>simp add: j max_iterations_def\<close>)
qed

lemma tick_first_closed:
  assumes "stalled (world 1) job_id"
  shows "stream_loop world job_id now 1 0 (- 1) = ([EvProgress 0 None], 1, None, Closed)"
proof -
  from assms obtain job where j: "get_job (world (Suc 0)) job_id = Some job"
    "py_float (dict_get job ''progress'' (PInt 0)) = Inr 0"
    "dict_get job ''status'' (PStr ''queued'') = PStr ''running''"
    "\<not> truthy (dict_get job ''error'' (PStr []))"
    by (auto elim: stalledD)
  show ?thesis
    by (subst stream_loop.simps) (simp add: j max_iterations_def)
qed

lemma tick_quiet:
  assumes "iteration < 100" and "stalled (world (Suc iteration)) job_id"
  shows "stream_loop world job_id now calls iteration 0 =
         stream_loop world job_id now calls (Suc iteration) 0"
proof -
  from assms(2) obtain job where j: "get_job (world (Suc iteration)) job_id = Some job"
    "py_float (dict_get job ''progress'' (PInt 0)) = Inr 0"
    "dict_get job ''status'' (PStr ''queued'') = PStr ''running''"
    "\<not> truthy (dict_get job ''error'' (PStr []))"
    by (auto elim: stalledD)
  have lt: "iteration < max_iterations"
    using assms(1) by (simp add: max_iterations_def)
  show ?thesis
    by (subst stream_loop.simps) (use assms(1) lt in \<open>simp add: j\<close>)
qed

lemma ticks_quiet:
  assumes "\<forall>i. k < i \<and> i \<le> 100 \<longrightarrow> stalled (world i) job_id" and "k \<le> 100"
  shows "stream_loop world job_id now calls k 0 = stream_loop world job_id now calls 100 0"
  using assms
proof (induction "100 - k" arbitrary: k)
  case 0
  then show ?case by simp
next
  case (Suc n)
  then have lt: "k < 100" by simp
  have st: "stalled (world (Suc k)) job_id"
    using Suc.prems(1) lt by simp
  have "stream_loop world job_id now calls k 0 = stream_loop world job_id now calls (Suc k) 0"
    using lt st by (rule tick_quiet)
  also have "\<dots> = stream_loop world job_id now calls 100 0"
    using Suc.hyps Suc.prems lt by (intro Suc.hyps(1)) auto
  finally show ?case .
qed

lemma stalled_written:
  assumes "stalled s job_id"
  shows "\<exists>h. hashes s (job_key job_id) = Some h \<and>
     update_job s job_id [(''status'', PStr ''error''), (''error'', PStr ''Timeout: no progress'')] now =
       (s\<lparr>hashes := (hashes s)(job_key job_id \<mapsto>
              h(''status'' \<mapsto> PStr ''error'', ''error'' \<mapsto> PStr ''Timeout: no progress'',
                ''updated_at'' \<mapsto> PInt now)),
            ttl := (ttl s)(job_key job_id \<mapsto> JOB_EXPIRY_SECONDS)\<rparr>, Inr True)"
proof -
  from assms obtain h where h: "hashes s (job_key job_id) = Some h"
    by (auto simp: stalled_def get_job_def split: option.splits)
  have "update_job s job_id [(''status'', PStr ''error''), (''error'', PStr ''Timeout: no progress'')] now =
       (s\<lparr>hashes := (hashes s)(job_key job_id \<mapsto>
              h ++ map_of (AList.update ''updated_at'' (PInt now)
                     [(''status'', PStr ''error''), (''error'', PStr ''Timeout: no progress'')])),
            ttl := (ttl s)(job_key job_id \<mapsto> JOB_EXPIRY_SECONDS)\<rparr>, Inr True)"
    by (rule update_job_written [OF h, where t = now]) simp
  moreover have "h ++ map_of (AList.update ''updated_at'' (PInt now)
                     [(''status'', PStr ''error''), (''error'', PStr ''Timeout: no progress'')]) =
     h(''status'' \<mapsto> PStr ''error'', ''error'' \<mapsto> PStr ''Timeout: no progress'',
                ''updated_at'' \<mapsto> PInt now)"
    by (rule ext) (simp add: map_add_def)
  ultimately show ?thesis
    using h by simp
qed

lemma tick_fire:
  assumes "stalled (world 101) job_id" and "2 \<le> calls"
  shows "stream_loop world job_id now calls 100 0 =
     ([EvError (PStr ''Download timed out (no progress)'')], 101,
      Some (fst (update_job (world 101) job_id
                  [(''status'', PStr ''error''), (''error'', PStr ''Timeout: no progress'')] now)),
      Finished)"
proof -
  from assms(1) obtain job where j: "get_job (world 101) job_id = Some job"
    "py_float (dict_get job ''progress'' (PInt 0)) = Inr 0"
    "dict_get job ''status'' (PStr ''queued'') = PStr ''running''"
    "\<not> truthy (dict_get job ''error'' (PStr []))"
    by (auto elim: stalledD)
  from stalled_written [OF assms(1), of now] obtain s' where
    u: "update_job (world 101) job_id
          [(''status'', PStr ''error''), (''error'', PStr ''Timeout: no progress'')] now = (s', Inr True)"
    by auto
  show ?thesis
    by (subst stream_loop.simps) (use assms(2) in \<open>simp add: j u max_iterations_def\<close>)
qed

lemma tick_fire_closed:
  assumes "stalled (world 101) job_id"
  shows "stream_loop world job_id now 1 100 0 =
     ([EvError (PStr ''Download timed out (no progress)'')], 101, None, Closed)"
proof -
  from assms obtain job where j: "get_job (world 101) job_id = Some job"
    "py_float (dict_get job ''progress'' (PInt 0)) = Inr 0"
    "dict_get job ''status'' (PStr ''queued'') = PStr ''running''"
    "\<not> truthy (dict_get job ''error'' (PStr []))"
    by (auto elim: stalledD)
  show ?thesis
    by (subst stream_loop.simps) (simp add: j max_iterations_def)
qed

text \<open>
  A consumer that takes the two events and closes the stream: the stall guard yields its
  \<open>ERROR\<close> event and is closed at that \<open>yield\<close>, so \<open>update_job\<close> is never reached
  and nothing is written.
\<close>

lemma stalled_stream_abandoned:
  assumes "\<forall>i. 1 \<le> i \<and> i \<le> 101 \<longrightarrow> stalled (world i) job_id"
  shows "event_stream world job_id now 2 =
     ([EvProgress 0 None, EvError (PStr ''Download timed out (no progress)'')], None)"
proof -
  have s1: "stalled (world 1) job_id" and s101: "stalled (world 101) job_id"
    using assms by simp_all
  have q: "\<forall>i. 1 < i \<and> i \<le> 100 \<longrightarrow> stalled (world i) job_id"
    using assms by simp
  have "stream_loop world job_id now 1 1 0 = stream_loop world job_id now 1 100 0"
    using q by (rule ticks_quiet) simp
  then have "stream_loop world job_id now 2 0 (- 1) =
     ([EvProgress 0 None, EvError (PStr ''Download timed out (no progress)'')], 101, None, Closed)"
    using tick_first [of world job_id 2 now] tick_fire_closed [of world job_id now] s1 s101
    by simp
  then show ?thesis
    by (simp add: event_stream_def)
qed

text \<open>
  A consumer that asks at least once more after the \<open>ERROR\<close> event: the write happens.
\<close>

lemma stalled_stream_read_on:
  assumes "\<forall>i. 1 \<le> i \<and> i \<le> 101 \<longrightarrow> stalled (world i) job_id" and "3 \<le> calls"
  shows "event_stream world job_id now calls =
     ([EvProgress 0 None, EvError (PStr ''Download timed out (no progress)'')],
      Some (fst (update_job (world 101) job_id
                  [(''status'', PStr ''error''), (''error'', PStr ''Timeout: no progress'')] now)))"
proof -
  have s1: "stalled (world 1) job_id" and s101: "stalled (world 101) job_id"
    using assms by simp_all
  have q: "\<forall>i. 1 < i \<and> i \<le> 100 \<longrightarrow> stalled (world i) job_id"
    using assms by simp
  have c: "2 \<le> calls" "2 \<le> calls - 1" "calls \<noteq> 0"
    using assms(2) by simp_all
  have "stream_loop world job_id now (calls - 1) 1 0 = stream_loop world job_id now (calls - 1) 100 0"
    using q by (rule ticks_quiet) simp
  then have "stream_loop world job_id now calls 0 (- 1) =
     ([EvProgress 0 None, EvError (PStr ''Download timed out (no progress)'')], 101,
      Some (fst (update_job (world 101) job_id
                  [(''status'', PStr ''error''), (''error'', PStr ''Timeout: no progress'')] now)),
      Finished)"
    using tick_first [of world job_id calls now] tick_fire [of world job_id "calls - 1" now]
      s1 s101 c
    by simp
  then show ?thesis
    using c(3) by (simp add: event_stream_def max_iterations_def)
qed

lemma example_stalled: "stalled (frozen example_store i) ''a''"
  by (simp add: stalled_def frozen_def get_job_def example_store_def dict_get_def
        parse_numeric_apply numeric_fields_def parse_field_def)

text \<open>
  C6, what the code does when the stream is closed at the \<open>ERROR\<close> event. The record
  \<open>a\<close> stays at \<open>progress\<close> 0 with \<open>status = running\<close>. A consumer that takes the
  two events and closes the stream gets the progress event and then, at poll 101,
  \<open>ERROR:Download timed out (no progress)\<close>; nothing is written, so the record is
  still \<open>running\<close>, and a consumer that comes afterwards gets the progress event at
  its first poll and no terminal event. A consumer that asks once more after the
  \<open>ERROR\<close> event does make the stream write \<open>status = error\<close>.
\<close>

theorem stall_guard_abandoned:
  "event_stream (frozen example_store) ''a'' 50 2 =
     ([EvProgress 0 None, EvError (PStr ''Download timed out (no progress)'')], None) \<and>
   hget example_store (job_key ''a'') ''status'' = Some (PStr ''running'') \<and>
   event_stream (frozen example_store) ''a'' 60 1 = ([EvProgress 0 None], None) \<and>
   map_option (\<lambda>s. hget s (job_key ''a'') ''status'')
     (snd (event_stream (frozen example_store) ''a'' 50 3)) = Some (Some (PStr ''error''))"
proof -
  have st: "\<forall>i. 1 \<le> i \<and> i \<le> 101 \<longrightarrow> stalled (frozen example_store i) ''a''"
    using example_stalled by simp
  have a: "event_stream (frozen example_store) ''a'' 50 2 =
     ([EvProgress 0 None, EvError (PStr ''Download timed out (no progress)'')], None)"
    using st by (rule stalled_stream_abandoned)
  have b: "hget example_store (job_key ''a'') ''status'' = Some (PStr ''running'')"
    by (simp add: hget_def example_store_def)
  have c: "event_stream (frozen example_store) ''a'' 60 1 = ([EvProgress 0 None], None)"
    using tick_first_closed [of "frozen example_store" "''a''" 60] example_stalled [of 1]
    by (simp add: event_stream_def)
  have "snd (event_stream (frozen example_store) ''a'' 50 3) =
      Some (fst (update_job (frozen example_store 101) ''a''
                  [(''status'', PStr ''error''), (''error'', PStr ''Timeout: no progress'')] 50))"
    using stalled_stream_read_on [OF st, of 3 50] by simp
  moreover have "hget (fst (update_job (frozen example_store 101) ''a''
                  [(''status'', PStr ''error''), (''error'', PStr ''Timeout: no progress'')] 50))
              (job_key ''a'') ''status'' = Some (PStr ''error'')"
    by (simp add: update_job_def exists_key_def hset_def expire_def hget_def example_store_def
          frozen_def)
  ultimately have d: "map_option (\<lambda>s. hget s (job_key ''a'') ''status'')
     (snd (event_stream (frozen example_store) ''a'' 50 3)) = Some (Some (PStr ''error''))"
    by simp
  show ?thesis
    using a b c d by simp
qed

section \<open>Properties of the delete guard\<close>

lemma abspath_sibling:
  "abspath disk ''/srv/app/downloads_private/keys.txt'' = ''/srv/app/downloads_private/keys.txt''"
  by code_simp

lemma abspath_downloads: "abspath disk DOWNLOADS = ''/srv/app/downloads''"
  by code_simp

text \<open>
  C8, what the code does for a sibling path. The downloads directory is
  \<open>/srv/app/downloads\<close> and the job, finished, names the existing file
  \<open>/srv/app/downloads_private/keys.txt\<close>. The file is not inside the downloads
  directory, its absolute path starts with the directory's, the prefix test lets it
  through, and the file is removed; the endpoint answers \<open>deleted\<close> and nothing is
  printed.
\<close>

theorem sibling_file_deleted:
  "\<not> inside_downloads DOWNLOADS disk ''/srv/app/downloads_private/keys.txt'' \<and>
   ''/srv/app/downloads_private/keys.txt'' \<in> files disk \<and>
   safe_delete_file DOWNLOADS disk ''/srv/app/downloads_private/keys.txt'' =
     (disk\<lparr>files := {''/srv/app/downloads/video_1.mp4'', ''/etc/passwd''}\<rparr>, True, []) \<and>
   (case delete_job_endpoint DOWNLOADS
           (job_with_file ''done'' ''/srv/app/downloads_private/keys.txt'') disk ''j'' of
      (s', fs', answer, out) \<Rightarrow>
        files fs' = {''/srv/app/downloads/video_1.mp4'', ''/etc/passwd''} \<and>
        answer = DeletedResponse ''j'' \<and> out = [] \<and> jobs_all s' = [])"
  by code_simp

text \<open>
  The two parts of C8 the code does keep: a path that climbs out of the directory is
  blocked and reported, and a running job is refused with store and files unchanged.
\<close>

lemma traversal_blocked:
  "safe_delete_file DOWNLOADS disk ''downloads/../../../etc/passwd'' =
     (disk, False, [Blocked ''downloads/../../../etc/passwd''])"
  by code_simp

lemma running_refused:
  "hget s (job_key job_id) ''status'' = Some (PStr ''running'') \<Longrightarrow>
   delete_job_endpoint DOWNLOAD_DIR s fs job_id =
     (s, fs, ErrorResponse ''Cannot delete a running job'', [])"
  by (auto simp: delete_job_endpoint_def hget_def get_job_def dict_get_def parse_numeric_apply
        numeric_fields_def split: option.splits)

end
